theory Spec2Isabelle
  imports Complex_Main "HOL-Library.Word" "HOL-Library.Multiset" "HOL-Library.List_Lexorder"
begin

section \<open>Wide characters, strings and the arrays raw pointers address\<close>

text \<open>
  The benchmark is a Windows program: \<open>wchar_t\<close> is an unsigned 16-bit code unit.
  The content of a \<open>std::wstring\<close> or of an \<open>ATL::CStringW\<close> is the list of its code
  units, without the terminator.
\<close>

type_synonym wchar = "16 word"
type_synonym wstr = "wchar list"

definition NUL :: wchar where
  "NUL = 0"

text \<open>
  A \<open>const wchar_t*\<close> is modelled as the position of the character array it addresses
  in the memory of the process, and that memory as the list of the arrays. The array
  behind \<open>s.c_str()\<close> is the content of \<open>s\<close> followed by the terminator.
\<close>

type_synonym wptr = nat
type_synonym memory = "wchar list list"

definition c_array :: "wstr \<Rightarrow> wchar list" where
  "c_array s = s @ [NUL]"

text \<open>
  Reading a NUL-terminated string: the code units before the first terminator. An array
  without a terminator is overrun, which is undefined behaviour and modelled as \<open>None\<close>.
\<close>

fun until_NUL :: "wchar list \<Rightarrow> wstr option" where
  "until_NUL [] = None"
| "until_NUL (c # cs) =
     (if c = NUL then Some [] else map_option ((#) c) (until_NUL cs))"

text \<open>
  \<open>StringT(ptr)\<close>, the converting constructor both string classes offer from a
  \<open>const wchar_t*\<close>: it copies the code units up to the terminator. A pointer that
  addresses no array is dangling (\<open>None\<close>).
\<close>

definition from_ptr :: "memory \<Rightarrow> wptr \<Rightarrow> wstr option" where
  "from_ptr mem p = (if p < length mem then until_NUL (mem ! p) else None)"

section \<open>The two string classes and their \<open>operator<\<close>\<close>

datatype StringT = ATL_CStringW | STL_wstring

text \<open>
  \<open>std::wstring\<close>: \<open>a < b\<close> is \<open>a.compare(b) < 0\<close>; \<open>compare\<close> runs
  \<open>char_traits<wchar_t>::compare\<close> (that is \<open>wmemcmp\<close>) over the common length and
  breaks a tie by the lengths.
\<close>

fun wmemcmp :: "wchar list \<Rightarrow> wchar list \<Rightarrow> nat \<Rightarrow> int" where
  "wmemcmp (x # xs) (y # ys) (Suc n) =
     (if x = y then wmemcmp xs ys n else if x < y then - 1 else 1)"
| "wmemcmp _ _ _ = 0"

definition wstring_compare :: "wstr \<Rightarrow> wstr \<Rightarrow> int" where
  "wstring_compare a b =
     (let ans = wmemcmp a b (min (length a) (length b))
      in if ans \<noteq> 0 then ans
         else if length a < length b then - 1
         else if length a > length b then 1
         else 0)"

definition wstring_less :: "wstr \<Rightarrow> wstr \<Rightarrow> bool" where
  "wstring_less a b \<longleftrightarrow> wstring_compare a b < 0"

text \<open>
  \<open>ATL::CStringW\<close>: \<open>a < b\<close> is \<open>a.Compare(b) < 0\<close>; with the CRT character traits,
  which \<open>atlstr.h\<close> selects unless told otherwise, \<open>Compare\<close> runs \<open>wcscmp\<close> on the two
  NUL-terminated buffers.
\<close>

fun wcscmp :: "wchar list \<Rightarrow> wchar list \<Rightarrow> int" where
  "wcscmp (x # xs) (y # ys) =
     (if x \<noteq> y then (if x < y then - 1 else 1)
      else if x = NUL then 0
      else wcscmp xs ys)"
| "wcscmp _ _ = 0"

definition CStringW_Compare :: "wstr \<Rightarrow> wstr \<Rightarrow> int" where
  "CStringW_Compare a b = wcscmp (c_array a) (c_array b)"

definition CStringW_less :: "wstr \<Rightarrow> wstr \<Rightarrow> bool" where
  "CStringW_less a b \<longleftrightarrow> CStringW_Compare a b < 0"

fun string_less :: "StringT \<Rightarrow> wstr \<Rightarrow> wstr \<Rightarrow> bool" where
  "string_less ATL_CStringW = CStringW_less"
| "string_less STL_wstring = wstring_less"

section \<open>\<open>std::sort\<close>\<close>

text \<open>
  \<open>std::sort(first, last)\<close> rearranges the range using \<open>operator<\<close> only; the standard
  fixes its result (a permutation in non-descending order), not its algorithm. It is
  modelled by an insertion sort that consults nothing but the comparison it is given.
  Lemma \<open>std_sort_unique\<close> below shows that for the strings of this program every sorted
  permutation is the one computed here, so the choice of algorithm cannot be observed.
\<close>

fun insert_by :: "('a \<Rightarrow> 'a \<Rightarrow> bool) \<Rightarrow> 'a \<Rightarrow> 'a list \<Rightarrow> 'a list" where
  "insert_by lt x [] = [x]"
| "insert_by lt x (y # ys) =
     (if lt x y then x # y # ys else y # insert_by lt x ys)"

fun std_sort :: "('a \<Rightarrow> 'a \<Rightarrow> bool) \<Rightarrow> 'a list \<Rightarrow> 'a list" where
  "std_sort lt [] = []"
| "std_sort lt (x # xs) = insert_by lt x (std_sort lt xs)"

text \<open>Non-descending order with respect to a comparison: no later element is less than an earlier one.\<close>

definition non_descending :: "('a \<Rightarrow> 'a \<Rightarrow> bool) \<Rightarrow> 'a list \<Rightarrow> bool" where
  "non_descending lt xs = sorted_wrt (\<lambda>a b. \<not> lt b a) xs"

section \<open>The platform: timer, floating point, random numbers, stream formatting\<close>

text \<open>
  What the program takes from Win32 and the C++ library is a parameter of the model.
  The environment of one run supplies the readings of \<open>QueryPerformanceCounter\<close>, in the
  order the program asks for them, and the value of \<open>QueryPerformanceFrequency\<close>.
  A \<open>long long\<close> is a 64-bit word in two's complement (\<open>sint\<close> reads it).
\<close>

type_synonym long_long = "64 word"

record timer_env =
  QueryPerformanceCounter :: "nat \<Rightarrow> long_long"
  QueryPerformanceFrequency :: long_long

text \<open>
  The library: \<open>double\<close> is the type \<open>'d\<close> with the conversion from \<open>long long\<close>, the
  product, the quotient and the literal \<open>1000.0\<close>; \<open>show_double\<close> is what
  \<open>operator<<\<close> writes for a \<open>double\<close>; \<open>mt19937\<close> makes the engine (type \<open>'g\<close>) from
  its seed; \<open>pick g k\<close> is the position in \<open>0..k\<close> that \<open>std::shuffle\<close> draws from the
  engine \<open>g\<close>, and the engine after the draw. \<open>WIN64\<close> tells whether \<open>_WIN64\<close> is defined.
\<close>

record ('g, 'd) library =
  double_of_ll :: "long_long \<Rightarrow> 'd"
  double_mul :: "'d \<Rightarrow> 'd \<Rightarrow> 'd"
  double_div :: "'d \<Rightarrow> 'd \<Rightarrow> 'd"
  double_1000 :: "'d"
  show_double :: "'d \<Rightarrow> string"
  mt19937 :: "32 word \<Rightarrow> 'g"
  pick :: "'g \<Rightarrow> nat \<Rightarrow> nat \<times> 'g"
  WIN64 :: bool

section \<open>The state of a run\<close>

record 'd PerfData =
  PushBackTimeMs :: 'd
  SortTimeMs :: 'd
  Description :: string

text \<open>
  The trace is a ghost field: it records each return of the benchmark core (string
  class, pointers received, label, result) and each call of the printer.
\<close>

datatype 'd event =
  Measured StringT "wptr list" string "'d PerfData"
| Printed "'d PerfData"

record 'd world =
  ticks :: nat
  cout :: string
  arrays :: memory
  trace :: "'d event list"

definition initial_world :: "'d world" where
  "initial_world = \<lparr>ticks = 0, cout = [], arrays = [], trace = []\<rparr>"

section \<open>Timer wrappers\<close>

definition Counter :: "timer_env \<Rightarrow> 'd world \<Rightarrow> long_long \<times> 'd world" where
  "Counter env w = (QueryPerformanceCounter env (ticks w), w\<lparr>ticks := Suc (ticks w)\<rparr>)"

definition Frequency :: "timer_env \<Rightarrow> long_long" where
  "Frequency env = QueryPerformanceFrequency env"

definition MillisecondsFromDeltaCounter ::
  "('g, 'd) library \<Rightarrow> timer_env \<Rightarrow> long_long \<Rightarrow> long_long \<Rightarrow> 'd" where
  "MillisecondsFromDeltaCounter lib env start finish =
     double_div lib (double_mul lib (double_of_ll lib (finish - start)) (double_1000 lib))
       (double_of_ll lib (Frequency env))"

section \<open>Report printer\<close>

definition nl :: string where
  "nl = [CHR 0x0A]"

definition PrintTime_text :: "('g, 'd) library \<Rightarrow> 'd PerfData \<Rightarrow> string" where
  "PrintTime_text lib perf_data =
     (Description perf_data @ '':'' @ nl)
     @ (''  push_back : '' @ show_double lib (PushBackTimeMs perf_data) @ '' ms'' @ nl)
     @ (''  sort      : '' @ show_double lib (SortTimeMs perf_data) @ '' ms'' @ nl @ nl)"

text \<open>
  The sample is received by reference to const; it is threaded through the call like the
  rest of the state, so that leaving it alone is a property of the model.
\<close>

definition PrintTime ::
  "('g, 'd) library \<Rightarrow> 'd PerfData \<times> 'd world \<Rightarrow> 'd PerfData \<times> 'd world" where
  "PrintTime lib = (\<lambda>(perf_data, w).
     (perf_data,
      w\<lparr>cout := cout w @ PrintTime_text lib perf_data,
        trace := trace w @ [Printed perf_data]\<rparr>))"

text \<open>
  The lines of a text: the pieces that end in a newline, and what follows the last
  newline when that is not empty.
\<close>

fun lines_from :: "string \<Rightarrow> string \<Rightarrow> string list" where
  "lines_from cur [] = (if cur = [] then [] else [cur])"
| "lines_from cur (c # cs) =
     (if c = CHR 0x0A then cur # lines_from [] cs else lines_from (cur @ [c]) cs)"

definition lines_of :: "string \<Rightarrow> string list" where
  "lines_of s = lines_from [] s"

section \<open>Benchmark core\<close>

text \<open>The range-for of lines 100 to 103: one \<open>push_back\<close> of a new string per pointer.\<close>

fun push_back_loop :: "memory \<Rightarrow> wptr list \<Rightarrow> wstr list \<Rightarrow> wstr list option" where
  "push_back_loop mem [] v = Some v"
| "push_back_loop mem (ptr # ptrs) v =
     (case from_ptr mem ptr of
        None \<Rightarrow> None
      | Some s \<Rightarrow> push_back_loop mem ptrs (v @ [s]))"

text \<open>
  The function returns the timing sample; the model also returns the vector \<open>v\<close> as it
  is after the sort, which the source destroys on return.
\<close>

definition MeasurePushBackAndSort ::
  "StringT \<Rightarrow> ('g, 'd) library \<Rightarrow> timer_env \<Rightarrow> wptr list \<Rightarrow> string \<Rightarrow> 'd world
   \<Rightarrow> (('d PerfData \<times> wstr list) \<times> 'd world) option" where
  "MeasurePushBackAndSort T lib env shuffled_ptrs description w =
     (let (start, w1) = Counter env w
      in case push_back_loop (arrays w1) shuffled_ptrs [] of
           None \<Rightarrow> None
         | Some v \<Rightarrow>
             (let (finish, w2) = Counter env w1;
                  push_back_time_ms = MillisecondsFromDeltaCounter lib env start finish;
                  (start', w3) = Counter env w2;
                  v' = std_sort (string_less T) v;
                  (finish', w4) = Counter env w3;
                  sort_time_ms = MillisecondsFromDeltaCounter lib env start' finish';
                  result = \<lparr>PushBackTimeMs = push_back_time_ms,
                            SortTimeMs = sort_time_ms,
                            Description = description\<rparr>
              in Some ((result, v'),
                       w4\<lparr>trace := trace w4 @ [Measured T shuffled_ptrs description result]\<rparr>)))"

text \<open>
  The sample a call of the core returns when the counter has been read \<open>n\<close> times
  before: it reads the counter four times, at \<open>n\<close>, \<open>n + 1\<close>, \<open>n + 2\<close> and \<open>n + 3\<close>.
\<close>

definition sample_at :: "('g, 'd) library \<Rightarrow> timer_env \<Rightarrow> nat \<Rightarrow> string \<Rightarrow> 'd PerfData" where
  "sample_at lib env n description =
     \<lparr>PushBackTimeMs = MillisecondsFromDeltaCounter lib env
        (QueryPerformanceCounter env n) (QueryPerformanceCounter env (n + 1)),
      SortTimeMs = MillisecondsFromDeltaCounter lib env
        (QueryPerformanceCounter env (n + 2)) (QueryPerformanceCounter env (n + 3)),
      Description = description\<rparr>"

section \<open>Corpus generator\<close>

text \<open>\<open>std::to_wstring(int)\<close>: the decimal digits, after a minus sign for a negative value.\<close>

definition digit :: "nat \<Rightarrow> wchar" where
  "digit d = 0x30 + of_nat d"

function dec_digits :: "nat \<Rightarrow> wstr" where
  "dec_digits n = (if n < 10 then [digit n] else dec_digits (n div 10) @ [digit (n mod 10)])"
  by pat_completeness auto
termination
  by (relation "measure id") auto

declare dec_digits.simps [simp del]

definition to_wstring :: "int \<Rightarrow> wstr" where
  "to_wstring i = (if i < 0 then 0x2D # dec_digits (nat (- i)) else dec_digits (nat i))"

text \<open>
  The loop of lines 138 to 141, with its bound as a parameter; the counter stays far
  below the range of \<open>int\<close>, so it is an unbounded integer here.
\<close>

function small_strings_loop :: "int \<Rightarrow> int \<Rightarrow> wstr list \<Rightarrow> wstr list" where
  "small_strings_loop n i v =
     (if i < n then small_strings_loop n (i + 1) (v @ [[0x23] @ to_wstring i]) else v)"
  by pat_completeness auto
termination
  by (relation "measure (\<lambda>(n, i, v). nat (n - i))") auto

declare small_strings_loop.simps [simp del]

definition small_strings :: "wstr list" where
  "small_strings = small_strings_loop (200 * 1000) 0 []"

text \<open>
  \<open>std::shuffle\<close>: the standard leaves the algorithm to the implementation. The model is
  the exchange shuffle: position \<open>i\<close>, for \<open>i\<close> from 1 to the last, is exchanged with the
  position drawn from \<open>0..i\<close>.
\<close>

fun shuffle_steps :: "('g \<Rightarrow> nat \<Rightarrow> nat \<times> 'g) \<Rightarrow> nat list \<Rightarrow> 'g \<Rightarrow> 'a list \<Rightarrow> 'a list" where
  "shuffle_steps pk [] g v = v"
| "shuffle_steps pk (i # is) g v =
     (case pk g i of (j, g') \<Rightarrow> shuffle_steps pk is g' (v[i := v ! j, j := v ! i]))"

definition std_shuffle :: "('g, 'd) library \<Rightarrow> 'g \<Rightarrow> 'a list \<Rightarrow> 'a list" where
  "std_shuffle lib g v = shuffle_steps (pick lib) [1..<length v] g v"

definition shuffled :: "('g, 'd) library \<Rightarrow> wstr list" where
  "shuffled lib = (let v = small_strings; prng = mt19937 lib 64 in std_shuffle lib prng v)"

text \<open>
  The loop of lines 157 to 160: \<open>k\<close> is the position of the string at hand, so that
  \<open>s.c_str()\<close> is the pointer \<open>k\<close>.
\<close>

fun c_str_loop :: "nat \<Rightarrow> wstr list \<Rightarrow> wptr list \<Rightarrow> wptr list" where
  "c_str_loop k [] v = v"
| "c_str_loop k (s # ss) v = c_str_loop (Suc k) ss (v @ [k])"

definition shuffled_ptrs :: "('g, 'd) library \<Rightarrow> wptr list" where
  "shuffled_ptrs lib = c_str_loop 0 (shuffled lib) []"

section \<open>The entry point\<close>

definition banner :: "('g, 'd) library \<Rightarrow> string" where
  "banner lib =
     (nl @ ''*** SSO Performance Benchmark ***'' @ nl)
     @ ('' by Giovanni Dicanio'' @ nl @ nl)
     @ (if WIN64 lib then ''(64-bit)'' @ nl @ nl else [])"

text \<open>One statement of lines 169 to 174: the printer applied to the result of the core.\<close>

definition PrintTime_of_Measure ::
  "StringT \<Rightarrow> ('g, 'd) library \<Rightarrow> timer_env \<Rightarrow> wptr list \<Rightarrow> string \<Rightarrow> 'd world
   \<Rightarrow> 'd world option" where
  "PrintTime_of_Measure T lib env ptrs description w =
     (case MeasurePushBackAndSort T lib env ptrs description w of
        None \<Rightarrow> None
      | Some ((perf_data, v), w') \<Rightarrow> Some (snd (PrintTime lib (perf_data, w'))))"

definition main :: "('g, 'd) library \<Rightarrow> timer_env \<Rightarrow> 'd world option" where
  "main lib env =
     (let w0 = initial_world\<lparr>cout := banner lib\<rparr>;
          strings = shuffled lib;
          w1 = w0\<lparr>arrays := map c_array strings\<rparr>;
          ptrs = shuffled_ptrs lib
      in Option.bind (PrintTime_of_Measure ATL_CStringW lib env ptrs ''ATL1'' w1) (\<lambda>w.
         Option.bind (PrintTime_of_Measure STL_wstring lib env ptrs ''STL1'' w) (\<lambda>w.
         Option.bind (PrintTime_of_Measure ATL_CStringW lib env ptrs ''ATL2'' w) (\<lambda>w.
         Option.bind (PrintTime_of_Measure STL_wstring lib env ptrs ''STL2'' w) (\<lambda>w.
         Option.bind (PrintTime_of_Measure ATL_CStringW lib env ptrs ''ATL3'' w) (\<lambda>w.
         PrintTime_of_Measure STL_wstring lib env ptrs ''STL3'' w))))))"

section \<open>Vocabulary of the specification\<close>

text \<open>
  The decimal representation of a number, said without the program: a numeral is a
  non-empty text of the digits \<open>0\<close> to \<open>9\<close> that does not start with \<open>0\<close> unless it is
  \<open>0\<close> itself, and its value is read off digit by digit. A number has one numeral.
\<close>

definition is_digit :: "wchar \<Rightarrow> bool" where
  "is_digit c \<longleftrightarrow> 0x30 \<le> c \<and> c \<le> 0x39"

definition decimal_value :: "wstr \<Rightarrow> nat" where
  "decimal_value s = foldl (\<lambda>a c. 10 * a + (unat c - 0x30)) 0 s"

definition is_decimal_numeral :: "wstr \<Rightarrow> bool" where
  "is_decimal_numeral s \<longleftrightarrow> s \<noteq> [] \<and> list_all is_digit s \<and> (s = [0x30] \<or> hd s \<noteq> 0x30)"

text \<open>
  The contract of the draw: \<open>std::shuffle\<close> asks for a position in \<open>0..k\<close> and gets one.
\<close>

definition draws_in_range :: "('g, 'd) library \<Rightarrow> bool" where
  "draws_in_range lib \<longleftrightarrow> (\<forall>g k. fst (pick lib g k) \<le> k)"

text \<open>The pointer sequences the calls of the benchmark core received, in the order of the calls.\<close>

fun pointers_received :: "'d event list \<Rightarrow> wptr list list" where
  "pointers_received [] = []"
| "pointers_received (Measured T ptrs description r # es) = ptrs # pointers_received es"
| "pointers_received (Printed r # es) = pointers_received es"

text \<open>
  The world the entry point is shown to end in: the counter has been read 24 times, the
  output is the banner and the six reports, and the trace has a call of the core and a
  call of the printer for each of the six statements.
\<close>

definition main_result :: "('g, 'd) library \<Rightarrow> timer_env \<Rightarrow> 'd world" where
  "main_result lib env =
     \<lparr>ticks = 24,
      cout = banner lib
        @ PrintTime_text lib (sample_at lib env 0 ''ATL1'')
        @ PrintTime_text lib (sample_at lib env 4 ''STL1'')
        @ PrintTime_text lib (sample_at lib env 8 ''ATL2'')
        @ PrintTime_text lib (sample_at lib env 12 ''STL2'')
        @ PrintTime_text lib (sample_at lib env 16 ''ATL3'')
        @ PrintTime_text lib (sample_at lib env 20 ''STL3''),
      arrays = map c_array (shuffled lib),
      trace =
        [Measured ATL_CStringW (shuffled_ptrs lib) ''ATL1'' (sample_at lib env 0 ''ATL1''),
         Printed (sample_at lib env 0 ''ATL1''),
         Measured STL_wstring (shuffled_ptrs lib) ''STL1'' (sample_at lib env 4 ''STL1''),
         Printed (sample_at lib env 4 ''STL1''),
         Measured ATL_CStringW (shuffled_ptrs lib) ''ATL2'' (sample_at lib env 8 ''ATL2''),
         Printed (sample_at lib env 8 ''ATL2''),
         Measured STL_wstring (shuffled_ptrs lib) ''STL2'' (sample_at lib env 12 ''STL2''),
         Printed (sample_at lib env 12 ''STL2''),
         Measured ATL_CStringW (shuffled_ptrs lib) ''ATL3'' (sample_at lib env 16 ''ATL3''),
         Printed (sample_at lib env 16 ''ATL3''),
         Measured STL_wstring (shuffled_ptrs lib) ''STL3'' (sample_at lib env 20 ''STL3''),
         Printed (sample_at lib env 20 ''STL3'')]\<rparr>"



section \<open>An example platform\<close>

text \<open>
  A platform for the worked examples: \<open>double\<close> is read as the real numbers with exact
  arithmetic, the stream shows the two values of the formatting example and nothing else,
  the engine is a counter, and the timer ticks a thousand times between two readings.
\<close>

definition example_library :: "(nat, real) library" where
  "example_library =
     \<lparr>double_of_ll = (\<lambda>x. real_of_int (sint x)),
      double_mul = (\<lambda>a b. a * b),
      double_div = (\<lambda>a b. a / b),
      double_1000 = 1000,
      show_double = (\<lambda>d. if d = 3 / 2 then ''1.5'' else if d = 9 / 4 then ''2.25'' else ''0''),
      mt19937 = unat,
      pick = (\<lambda>g k. (g mod Suc k, Suc g)),
      WIN64 = True\<rparr>"

definition example_env :: timer_env where
  "example_env =
     \<lparr>QueryPerformanceCounter = (\<lambda>k. of_nat (1000 * k)),
      QueryPerformanceFrequency = 10000000\<rparr>"

text \<open>
  A memory of three arrays: the second has no terminator, and the third holds one in the
  middle, so the string read from it stops there.
\<close>

definition example_memory :: memory where
  "example_memory = [[0x62, 0x62, 0], [0x62], [0x61, 0, 0x7A, 0]]"

text \<open>The arrays behind the three literal values \<open>#2\<close>, \<open>#0\<close> and \<open>#1\<close>.\<close>

definition hash_2_0_1 :: memory where
  "hash_2_0_1 = [c_array [0x23, 0x32], c_array [0x23, 0x30], c_array [0x23, 0x31]]"

text \<open>The sample of the formatting example: label \<open>X\<close>, 1.5 ms and 2.25 ms.\<close>

definition sample_X :: "real PerfData" where
  "sample_X = \<lparr>PushBackTimeMs = 3 / 2, SortTimeMs = 9 / 4, Description = ''X''\<rparr>"


section \<open>The comparisons are the lexicographic order; the sort\<close>

lemma wstring_compare_less_iff: "wstring_compare a b < 0 \<longleftrightarrow> a < b"
proof (induction a arbitrary: b)
  case Nil
  show ?case by (cases b) (simp_all add: wstring_compare_def)
next
  case (Cons x xs)
  show ?case
  proof (cases b)
    case Nil
    then show ?thesis by (simp add: wstring_compare_def)
  next
    case (Cons y ys)
    have "wstring_compare (x # xs) (y # ys) =
      (if x = y then wstring_compare xs ys else if x < y then - 1 else 1)"
      by (simp add: wstring_compare_def Let_def)
    with Cons.IH [of ys] Cons show ?thesis by auto
  qed
qed

lemma wstring_less_iff: "wstring_less a b \<longleftrightarrow> a < b"
  by (simp add: wstring_less_def wstring_compare_less_iff)

lemma wcscmp_less_iff:
  "NUL \<notin> set a \<Longrightarrow> NUL \<notin> set b \<Longrightarrow> wcscmp (c_array a) (c_array b) < 0 \<longleftrightarrow> a < b"
proof (induction a arbitrary: b)
  case Nil
  then show ?case by (cases b) (auto simp: c_array_def NUL_def word_neq_0_conv)
next
  case (Cons x xs)
  show ?case
  proof (cases b)
    case Nil
    with Cons.prems show ?thesis by (auto simp: c_array_def NUL_def)
  next
    case (Cons y ys)
    with Cons.prems Cons.IH [of ys] show ?thesis by (auto simp: c_array_def)
  qed
qed

lemma CStringW_less_iff:
  "NUL \<notin> set a \<Longrightarrow> NUL \<notin> set b \<Longrightarrow> CStringW_less a b \<longleftrightarrow> a < b"
  by (simp add: CStringW_less_def CStringW_Compare_def wcscmp_less_iff)

lemma string_less_iff:
  "NUL \<notin> set a \<Longrightarrow> NUL \<notin> set b \<Longrightarrow> string_less T a b \<longleftrightarrow> a < b"
  by (cases T) (simp_all add: CStringW_less_iff wstring_less_iff)

lemma mset_insert_by: "mset (insert_by lt x ys) = add_mset x (mset ys)"
  by (induction ys) simp_all

lemma mset_std_sort: "mset (std_sort lt xs) = mset xs"
  by (induction xs) (simp_all add: mset_insert_by)

lemma set_insert_by: "set (insert_by lt x ys) = insert x (set ys)"
  by (induction ys) auto

lemma set_std_sort: "set (std_sort lt xs) = set xs"
  by (induction xs) (simp_all add: set_insert_by)

lemma sorted_insert_by:
  fixes x :: "'a::linorder"
  shows "sorted ys \<Longrightarrow> sorted (insert_by (<) x ys)"
  by (induction ys) (auto simp: set_insert_by)

lemma sorted_std_sort:
  fixes xs :: "('a::linorder) list"
  shows "sorted (std_sort (<) xs)"
  by (induction xs) (simp_all add: sorted_insert_by)

lemma insert_by_cong:
  "(\<And>b. b \<in> set ys \<Longrightarrow> lt x b = lt' x b) \<Longrightarrow> insert_by lt x ys = insert_by lt' x ys"
  by (induction ys) simp_all

lemma std_sort_cong:
  "(\<And>a b. a \<in> set xs \<Longrightarrow> b \<in> set xs \<Longrightarrow> lt a b = lt' a b)
   \<Longrightarrow> std_sort lt xs = std_sort lt' xs"
proof (induction xs)
  case Nil
  show ?case by simp
next
  case (Cons x xs)
  have "std_sort lt xs = std_sort lt' xs"
    by (rule Cons.IH) (simp add: Cons.prems)
  moreover have "insert_by lt x (std_sort lt' xs) = insert_by lt' x (std_sort lt' xs)"
    by (rule insert_by_cong) (simp add: Cons.prems set_std_sort)
  ultimately show ?case by simp
qed

lemma non_descending_iff_sorted:
  fixes xs :: "('a::linorder) list"
  assumes "\<And>a b. a \<in> set xs \<Longrightarrow> b \<in> set xs \<Longrightarrow> lt a b \<longleftrightarrow> a < b"
  shows "non_descending lt xs \<longleftrightarrow> sorted xs"
  using assms unfolding non_descending_def
  by (induction xs) (auto simp: not_less)

lemma std_sort_strings:
  assumes "\<forall>s \<in> set xs. NUL \<notin> set s"
  shows "std_sort (string_less T) xs = sort xs"
proof -
  have "std_sort (string_less T) xs = std_sort (<) xs"
    by (rule std_sort_cong) (simp add: string_less_iff assms)
  also have "\<dots> = sort xs"
    by (rule properties_for_sort [symmetric]) (simp_all add: mset_std_sort sorted_std_sort)
  finally show ?thesis .
qed

lemma std_sort_unique:
  assumes "\<forall>s \<in> set xs. NUL \<notin> set s"
    and "mset ys = mset xs"
    and "non_descending (string_less T) ys"
  shows "ys = std_sort (string_less T) xs"
proof -
  have "set ys = set xs" using assms(2) by (rule mset_eq_setD)
  with assms(1) have "non_descending (string_less T) ys \<longleftrightarrow> sorted ys"
    by (intro non_descending_iff_sorted) (simp add: string_less_iff)
  with assms(3) have "sorted ys" by simp
  with assms(2) have "sort xs = ys" by (rule properties_for_sort)
  then show ?thesis by (simp add: std_sort_strings assms(1))
qed

lemma non_descending_strings:
  assumes "\<forall>s \<in> set xs. NUL \<notin> set s"
  shows "non_descending (string_less T) xs \<longleftrightarrow> sorted xs"
proof (rule non_descending_iff_sorted)
  fix a b
  assume "a \<in> set xs" and "b \<in> set xs"
  with assms have "NUL \<notin> set a" and "NUL \<notin> set b" by simp_all
  then show "string_less T a b \<longleftrightarrow> a < b" by (rule string_less_iff)
qed

lemma until_NUL_no_NUL: "until_NUL cs = Some s \<Longrightarrow> NUL \<notin> set s"
  by (induction cs arbitrary: s) (auto split: if_splits)

lemma until_NUL_c_array: "NUL \<notin> set s \<Longrightarrow> until_NUL (c_array s) = Some s"
  by (induction s) (auto simp: c_array_def)

lemma from_ptr_no_NUL: "from_ptr mem p = Some s \<Longrightarrow> NUL \<notin> set s"
  by (auto simp: from_ptr_def until_NUL_no_NUL split: if_splits)

lemma push_back_loop_Some:
  "\<forall>p \<in> set ptrs. from_ptr mem p \<noteq> None
   \<Longrightarrow> push_back_loop mem ptrs v = Some (v @ map (the \<circ> from_ptr mem) ptrs)"
  by (induction ptrs arbitrary: v) auto

lemma push_back_loop_None:
  "\<exists>p \<in> set ptrs. from_ptr mem p = None \<Longrightarrow> push_back_loop mem ptrs v = None"
  by (induction ptrs arbitrary: v) (auto split: option.splits)

lemma Measure_Some:
  assumes "push_back_loop (arrays w) ptrs [] = Some v"
  shows "MeasurePushBackAndSort T lib env ptrs description w =
           Some ((sample_at lib env (ticks w) description, std_sort (string_less T) v),
                 w\<lparr>ticks := ticks w + 4,
                   trace := trace w @ [Measured T ptrs description
                                         (sample_at lib env (ticks w) description)]\<rparr>)"
  using assms
  by (simp add: MeasurePushBackAndSort_def Counter_def sample_at_def Let_def eval_nat_numeral)

section \<open>The benchmark core\<close>

text \<open>
  Claim C1. For every sequence of pointers to NUL-terminated arrays and for either string
  class, the core returns, and the vector after the sort step is in non-descending order
  for the class's own \<open>operator<\<close>, which is the lexicographic order of the code units
  (\<open>sorted\<close>), and holds the same multiset of elements as the vector the insertion loop
  built: one string per pointer, the \<open>i\<close>-th read from the \<open>i\<close>-th pointer.
\<close>

theorem sort_step_sorted_same_elements:
  assumes "\<forall>p \<in> set ptrs. from_ptr (arrays w) p \<noteq> None"
  shows "\<exists>pushed r v w'.
           push_back_loop (arrays w) ptrs [] = Some pushed
           \<and> MeasurePushBackAndSort T lib env ptrs description w = Some ((r, v), w')
           \<and> length pushed = length ptrs
           \<and> (\<forall>i < length ptrs. from_ptr (arrays w) (ptrs ! i) = Some (pushed ! i))
           \<and> non_descending (string_less T) v
           \<and> sorted v
           \<and> mset v = mset pushed
           \<and> length v = length ptrs"
proof -
  let ?pushed = "map (the \<circ> from_ptr (arrays w)) ptrs"
  let ?v = "std_sort (string_less T) ?pushed"
  have pushed: "push_back_loop (arrays w) ptrs [] = Some ?pushed"
    using push_back_loop_Some [OF assms, of "[]"] by simp
  have clean: "\<forall>s \<in> set ?pushed. NUL \<notin> set s"
  proof
    fix s
    assume "s \<in> set ?pushed"
    then obtain p where p: "p \<in> set ptrs" and s: "s = the (from_ptr (arrays w) p)"
      by auto
    from assms p obtain y where y: "from_ptr (arrays w) p = Some y"
      by auto
    with s have "s = y" by simp
    with y show "NUL \<notin> set s" by (simp add: from_ptr_no_NUL)
  qed
  have nth: "\<forall>i < length ptrs. from_ptr (arrays w) (ptrs ! i) = Some (?pushed ! i)"
    using assms by auto
  have srt: "sorted ?v"
    by (simp add: std_sort_strings [OF clean])
  have "\<forall>s \<in> set ?v. NUL \<notin> set s"
    using clean unfolding set_std_sort .
  then have "non_descending (string_less T) ?v \<longleftrightarrow> sorted ?v"
    by (rule non_descending_strings)
  with srt have nd: "non_descending (string_less T) ?v" by simp
  have ms: "mset ?v = mset ?pushed" by (rule mset_std_sort)
  then have "length ?v = length ?pushed" by (rule mset_eq_length)
  then have len: "length ?v = length ptrs" by simp
  have len0: "length ?pushed = length ptrs" by simp
  note run = Measure_Some [OF pushed, of T lib env description]
  from pushed run len0 nth nd srt ms len show ?thesis by blast
qed

theorem sort_step_sorted_same_elements_witness:
  "from_ptr example_memory 2 \<noteq> None \<and> from_ptr example_memory 0 \<noteq> None
   \<and> (\<exists>pushed r v w'.
         push_back_loop example_memory [2, 0, 2] [] = Some pushed
         \<and> MeasurePushBackAndSort ATL_CStringW example_library example_env [2, 0, 2] ''run''
              (initial_world\<lparr>arrays := example_memory\<rparr>) = Some ((r, v), w')
         \<and> non_descending (string_less ATL_CStringW) v
         \<and> sorted v
         \<and> mset v = mset pushed
         \<and> length v = 3)"
proof -
  let ?w = "initial_world\<lparr>arrays := example_memory\<rparr> :: real world"
  have valid: "\<forall>p \<in> set [2, 0, 2]. from_ptr (arrays ?w) p \<noteq> None"
    by (simp add: from_ptr_def example_memory_def NUL_def)
  from sort_step_sorted_same_elements
         [OF valid, of ATL_CStringW example_library example_env "''run''"]
  obtain pushed r v w' where
    "push_back_loop (arrays ?w) [2, 0, 2] [] = Some pushed"
    "MeasurePushBackAndSort ATL_CStringW example_library example_env [2, 0, 2] ''run'' ?w
       = Some ((r, v), w')"
    "non_descending (string_less ATL_CStringW) v" "sorted v" "mset v = mset pushed"
    "length v = length [2, 0, 2 :: nat]"
    by blast
  then show ?thesis using valid by auto
qed

text \<open>
  Claim C5. Whenever the pointers received address, in this order, the texts \<open>#2\<close>,
  \<open>#0\<close> and \<open>#1\<close>, the core returns for either string class, the vector after the
  sort step is \<open>#0\<close>, \<open>#1\<close>, \<open>#2\<close>, and the description of the returned sample is
  the label passed in.
\<close>

theorem end_to_end_three_values:
  assumes "map (from_ptr (arrays w)) ptrs
             = [Some [0x23, 0x32], Some [0x23, 0x30], Some [0x23, 0x31]]"
  shows "\<exists>r w'. MeasurePushBackAndSort T lib env ptrs label w
            = Some ((r, [[0x23, 0x30], [0x23, 0x31], [0x23, 0x32]]), w')
          \<and> Description r = label"
proof -
  from assms obtain p0 p1 p2 where ptrs: "ptrs = [p0, p1, p2]"
    and p0: "from_ptr (arrays w) p0 = Some [0x23, 0x32]"
    and p1: "from_ptr (arrays w) p1 = Some [0x23, 0x30]"
    and p2: "from_ptr (arrays w) p2 = Some [0x23, 0x31]"
    by (auto simp: map_eq_Cons_conv)
  have pushed: "push_back_loop (arrays w) ptrs []
      = Some [[0x23, 0x32], [0x23, 0x30], [0x23, 0x31]]"
    by (simp add: ptrs p0 p1 p2)
  have sorted: "std_sort (string_less T) [[0x23, 0x32], [0x23, 0x30], [0x23, 0x31 :: wchar]]
      = [[0x23, 0x30], [0x23, 0x31], [0x23, 0x32]]"
    by (cases T)
      (simp_all add: CStringW_less_def CStringW_Compare_def c_array_def NUL_def
        wstring_less_def wstring_compare_def)
  note run = Measure_Some [OF pushed, of T lib env label, unfolded sorted]
  have "Description (sample_at lib env (ticks w) label) = label"
    by (simp add: sample_at_def)
  with run show ?thesis by blast
qed

theorem end_to_end_three_values_witness:
  "map (from_ptr hash_2_0_1) [0, 1, 2] = [Some [0x23, 0x32], Some [0x23, 0x30], Some [0x23, 0x31]]
   \<and> (\<exists>r w'. MeasurePushBackAndSort ATL_CStringW example_library example_env [0, 1, 2] ''ATL1''
                 (initial_world\<lparr>arrays := hash_2_0_1\<rparr>)
               = Some ((r, [[0x23, 0x30], [0x23, 0x31], [0x23, 0x32]]), w')
             \<and> Description r = ''ATL1'')
   \<and> (\<exists>r w'. MeasurePushBackAndSort STL_wstring example_library example_env [0, 1, 2] ''STL1''
                 (initial_world\<lparr>arrays := hash_2_0_1\<rparr>)
               = Some ((r, [[0x23, 0x30], [0x23, 0x31], [0x23, 0x32]]), w')
             \<and> Description r = ''STL1'')"
proof -
  let ?w = "initial_world\<lparr>arrays := hash_2_0_1\<rparr> :: real world"
  have refs: "map (from_ptr (arrays ?w)) [0, 1, 2]
      = [Some [0x23, 0x32], Some [0x23, 0x30], Some [0x23, 0x31]]"
    by (simp add: hash_2_0_1_def from_ptr_def c_array_def NUL_def)
  note atl = end_to_end_three_values
    [OF refs, of ATL_CStringW example_library example_env "''ATL1''"]
  note stl = end_to_end_three_values
    [OF refs, of STL_wstring example_library example_env "''STL1''"]
  from refs have "map (from_ptr hash_2_0_1) [0, 1, 2]
      = [Some [0x23, 0x32], Some [0x23, 0x30], Some [0x23, 0x31]]"
    by simp
  with atl stl show ?thesis by blast
qed

section \<open>The corpus\<close>

lemma unat_digit: "d < 10 \<Longrightarrow> unat (digit d) = 0x30 + d"
  by (simp add: digit_def unat_word_ariths unat_of_nat)

lemma is_digit_digit: "d < 10 \<Longrightarrow> is_digit (digit d)"
  by (simp add: is_digit_def word_le_nat_alt unat_digit)

lemma digit_eq_zero: "d < 10 \<Longrightarrow> digit d = 0x30 \<longleftrightarrow> d = 0"
proof -
  assume d: "d < 10"
  have "digit d = 0x30 \<longleftrightarrow> unat (digit d) = unat (0x30 :: wchar)"
    by (simp only: word_unat_eq_iff)
  then show ?thesis using d by (simp add: unat_digit)
qed

lemma dec_digits_not_Nil: "dec_digits n \<noteq> []"
  by (subst dec_digits.simps) simp

lemma all_digits_dec_digits: "list_all is_digit (dec_digits n)"
proof (induction n rule: dec_digits.induct)
  case (1 n)
  show ?case
  proof (cases "n < 10")
    case True
    then show ?thesis by (subst dec_digits.simps) (simp add: is_digit_digit)
  next
    case False
    with "1.IH" show ?thesis by (subst dec_digits.simps) (simp add: is_digit_digit)
  qed
qed

lemma decimal_value_dec_digits: "decimal_value (dec_digits n) = n"
proof (induction n rule: dec_digits.induct)
  case (1 n)
  show ?case
  proof (cases "n < 10")
    case True
    then show ?thesis by (subst dec_digits.simps) (simp add: decimal_value_def unat_digit)
  next
    case False
    with "1.IH" have "decimal_value (dec_digits (n div 10)) = n div 10" by simp
    with False show ?thesis
      by (subst dec_digits.simps) (simp add: decimal_value_def unat_digit)
  qed
qed

lemma hd_dec_digits: "hd (dec_digits n) = 0x30 \<longleftrightarrow> n = 0"
proof (induction n rule: dec_digits.induct)
  case (1 n)
  show ?case
  proof (cases "n < 10")
    case True
    then show ?thesis by (subst dec_digits.simps) (simp add: digit_eq_zero)
  next
    case False
    with "1.IH" have "hd (dec_digits (n div 10)) = 0x30 \<longleftrightarrow> n div 10 = 0" by simp
    with False show ?thesis
      by (subst dec_digits.simps) (simp add: dec_digits_not_Nil)
  qed
qed

lemma is_decimal_numeral_dec_digits: "is_decimal_numeral (dec_digits n)"
proof -
  have "dec_digits 0 = [0x30]"
    by (subst dec_digits.simps) (simp add: digit_def)
  then have "dec_digits n = [0x30] \<or> hd (dec_digits n) \<noteq> 0x30"
    by (cases "n = 0") (simp_all add: hd_dec_digits)
  then show ?thesis
    by (simp add: is_decimal_numeral_def dec_digits_not_Nil all_digits_dec_digits)
qed

lemma length_dec_digits: "n < 10 ^ Suc k \<Longrightarrow> length (dec_digits n) \<le> Suc k"
proof (induction k arbitrary: n)
  case 0
  then show ?case by (subst dec_digits.simps) simp
next
  case (Suc k)
  show ?case
  proof (cases "n < 10")
    case True
    then show ?thesis by (subst dec_digits.simps) simp
  next
    case False
    from Suc.prems have "n div 10 < 10 ^ Suc k" by simp
    then have "length (dec_digits (n div 10)) \<le> Suc k" by (rule Suc.IH)
    with False show ?thesis by (subst dec_digits.simps) simp
  qed
qed

lemma to_wstring_nat: "to_wstring (int k) = dec_digits k"
  by (simp add: to_wstring_def)

lemma small_strings_loop_eq:
  "small_strings_loop n i v =
     v @ map (\<lambda>k. [0x23] @ to_wstring (i + int k)) [0..<nat (n - i)]"
proof (induction n i v rule: small_strings_loop.induct)
  case (1 n i v)
  show ?case
  proof (cases "i < n")
    case True
    then have "nat (n - i) = Suc (nat (n - (i + 1)))" by simp
    then have "[0..<nat (n - i)] = 0 # map Suc [0..<nat (n - (i + 1))]"
      by (simp only: upt_conv_Cons map_Suc_upt)
    moreover have "small_strings_loop n i v
        = small_strings_loop n (i + 1) (v @ [[0x23] @ to_wstring i])"
      using True by (subst small_strings_loop.simps) simp
    ultimately show ?thesis
      using "1.IH" [OF True] by (simp add: comp_def add.assoc)
  next
    case False
    then show ?thesis by (subst small_strings_loop.simps) simp
  qed
qed

lemma small_strings_eq:
  "small_strings = map (\<lambda>k. 0x23 # dec_digits k) [0..<200000]"
  by (simp add: small_strings_def small_strings_loop_eq to_wstring_nat)

lemma length_small_strings: "length small_strings = 200000"
  by (simp add: small_strings_eq)

lemma nth_small_strings: "i < 200000 \<Longrightarrow> small_strings ! i = 0x23 # dec_digits i"
  by (simp add: small_strings_eq)

lemma distinct_small_strings: "distinct small_strings"
proof -
  have "inj_on (\<lambda>k. 0x23 # dec_digits k) (set [0..<200000])"
  proof (rule inj_onI)
    fix a b :: nat
    assume "0x23 # dec_digits a = 0x23 # dec_digits b"
    then have "decimal_value (dec_digits a) = decimal_value (dec_digits b)" by simp
    then show "a = b" by (simp add: decimal_value_dec_digits)
  qed
  then show ?thesis by (simp add: small_strings_eq distinct_map)
qed

lemma length_shuffle_steps: "length (shuffle_steps pk is g v) = length v"
  by (induction "is" arbitrary: g v) (auto split: prod.splits)

lemma length_shuffled: "length (shuffled lib) = 200000"
  by (simp add: shuffled_def std_shuffle_def length_shuffle_steps length_small_strings)

text \<open>
  Claim C2. Before the shuffle the corpus has exactly 200,000 elements; the element at
  index \<open>i\<close> is the marker \<open>#\<close> followed by \<open>to_wstring i\<close>, which is the decimal numeral
  of \<open>i\<close>; and the elements are pairwise distinct. The shuffle keeps the number of
  elements.
\<close>

theorem corpus_before_shuffle:
  "length small_strings = 200000
   \<and> (\<forall>i < 200000. small_strings ! i = [0x23] @ to_wstring (int i)
         \<and> is_decimal_numeral (to_wstring (int i))
         \<and> decimal_value (to_wstring (int i)) = i)
   \<and> distinct small_strings
   \<and> length (shuffled lib) = 200000"
  by (simp add: length_small_strings nth_small_strings distinct_small_strings
      to_wstring_nat is_decimal_numeral_dec_digits decimal_value_dec_digits length_shuffled)

theorem corpus_before_shuffle_witness:
  "small_strings ! 1234 = [0x23, 0x31, 0x32, 0x33, 0x34]
   \<and> is_decimal_numeral [0x31, 0x32, 0x33, 0x34]
   \<and> decimal_value [0x31, 0x32, 0x33, 0x34] = 1234"
proof -
  have "to_wstring (int 1234) = [0x31, 0x32, 0x33, 0x34]"
    by (simp add: to_wstring_def dec_digits.simps digit_def)
  moreover have "(1234 :: nat) < 200000" by simp
  ultimately show ?thesis using corpus_before_shuffle by (metis append_Cons append_Nil)
qed

lemma mset_shuffle_steps:
  assumes "\<And>g k. fst (pk g k) \<le> k"
  shows "\<forall>i \<in> set is. i < length v \<Longrightarrow> mset (shuffle_steps pk is g v) = mset v"
proof (induction "is" arbitrary: g v)
  case Nil
  show ?case by simp
next
  case (Cons i "is")
  obtain j g' where pk: "pk g i = (j, g')" by (cases "pk g i")
  with assms [of g i] have "j \<le> i" by simp
  with Cons.prems have ij: "i < length v" "j < length v" by simp_all
  have "mset (shuffle_steps pk is g' (v[i := v ! j, j := v ! i]))
      = mset (v[i := v ! j, j := v ! i])"
    by (rule Cons.IH) (use Cons.prems in simp)
  also have "\<dots> = mset v" using ij by (simp add: mset_swap)
  finally show ?case by (simp add: pk)
qed

lemma mset_std_shuffle:
  "draws_in_range lib \<Longrightarrow> mset (std_shuffle lib g v) = mset v"
  unfolding std_shuffle_def draws_in_range_def
  by (rule mset_shuffle_steps) simp_all

lemma mset_shuffled: "draws_in_range lib \<Longrightarrow> mset (shuffled lib) = mset small_strings"
  by (simp add: shuffled_def mset_std_shuffle)

lemma length_le_7_small_strings: "s \<in> set small_strings \<Longrightarrow> length s \<le> 7"
proof -
  assume "s \<in> set small_strings"
  then obtain k where "k < 200000" and s: "s = 0x23 # dec_digits k"
    by (auto simp: small_strings_eq)
  then have "k < 10 ^ Suc 5" by simp
  then have "length (dec_digits k) \<le> Suc 5" by (rule length_dec_digits)
  with s show ?thesis by simp
qed

text \<open>
  Claim C10. Every string of the corpus has at most 7 code units: the marker and at most
  six digits. The shuffle keeps the elements, so the bound holds for the shuffled corpus
  too, whatever positions the library draws within its contract.
\<close>

theorem corpus_strings_short:
  "(\<forall>s \<in> set small_strings. length s \<le> 7)
   \<and> (draws_in_range lib \<longrightarrow> (\<forall>s \<in> set (shuffled lib). length s \<le> 7))"
proof -
  have "set (shuffled lib) = set small_strings" if "draws_in_range lib"
    using that by (intro mset_eq_setD mset_shuffled)
  then show ?thesis by (auto simp: length_le_7_small_strings)
qed

theorem corpus_strings_short_witness:
  "small_strings ! 199999 \<in> set small_strings
   \<and> length (small_strings ! 199999) \<le> 7
   \<and> small_strings ! 199999 = [0x23, 0x31, 0x39, 0x39, 0x39, 0x39, 0x39]
   \<and> draws_in_range example_library
   \<and> shuffled example_library ! 0 \<in> set (shuffled example_library)
   \<and> length (shuffled example_library ! 0) \<le> 7"
proof -
  have mem: "small_strings ! 199999 \<in> set small_strings"
    by (rule nth_mem) (simp add: length_small_strings)
  have "dec_digits 199999 = [0x31, 0x39, 0x39, 0x39, 0x39, 0x39]"
    by (simp add: dec_digits.simps digit_def)
  then have str: "small_strings ! 199999 = [0x23, 0x31, 0x39, 0x39, 0x39, 0x39, 0x39]"
    by (simp add: nth_small_strings)
  have draws: "draws_in_range example_library"
    by (simp add: draws_in_range_def example_library_def)
  then have "length (shuffled example_library) = length small_strings"
    by (intro mset_eq_length mset_shuffled)
  then have first: "shuffled example_library ! 0 \<in> set (shuffled example_library)"
    by (intro nth_mem) (simp add: length_small_strings)
  from corpus_strings_short [of example_library] mem str draws first
  show ?thesis by blast
qed

section \<open>The report printer\<close>

lemma lines_from_line:
  "CHR 0x0A \<notin> set a \<Longrightarrow> lines_from cur (a @ CHR 0x0A # rest) = (cur @ a) # lines_from [] rest"
  by (induction a arbitrary: cur) auto

lemma lines_of_line:
  "CHR 0x0A \<notin> set a \<Longrightarrow> lines_of (a @ nl @ rest) = a # lines_of rest"
  using lines_from_line [of a "[]" rest] by (simp add: lines_of_def nl_def)

text \<open>
  Claim C7. For every timing sample the printer appends to the standard output exactly
  the label and a colon, a newline, the \<open>push_back\<close> text with the insertion time and
  \<open>ms\<close>, a newline, the \<open>sort\<close> text with the sort time and \<open>ms\<close>, a newline, and one
  more newline; read as lines (when neither the label nor a formatted number holds a
  newline) these are the label line, the two metric lines and an empty line. The sample,
  the memory and the timer are left as they were.
\<close>

theorem PrintTime_report:
  "fst (PrintTime lib (perf_data, w)) = perf_data
   \<and> cout (snd (PrintTime lib (perf_data, w))) =
       cout w
       @ Description perf_data @ '':'' @ nl
       @ ''  push_back : '' @ show_double lib (PushBackTimeMs perf_data) @ '' ms'' @ nl
       @ ''  sort      : '' @ show_double lib (SortTimeMs perf_data) @ '' ms'' @ nl
       @ nl
   \<and> arrays (snd (PrintTime lib (perf_data, w))) = arrays w
   \<and> ticks (snd (PrintTime lib (perf_data, w))) = ticks w
   \<and> (CHR 0x0A \<notin> set (Description perf_data)
        \<and> CHR 0x0A \<notin> set (show_double lib (PushBackTimeMs perf_data))
        \<and> CHR 0x0A \<notin> set (show_double lib (SortTimeMs perf_data))
      \<longrightarrow> lines_of (PrintTime_text lib perf_data) =
            [Description perf_data @ '':'',
             ''  push_back : '' @ show_double lib (PushBackTimeMs perf_data) @ '' ms'',
             ''  sort      : '' @ show_double lib (SortTimeMs perf_data) @ '' ms'',
             ''''])"
proof -
  have "lines_of (PrintTime_text lib perf_data) =
            [Description perf_data @ '':'',
             ''  push_back : '' @ show_double lib (PushBackTimeMs perf_data) @ '' ms'',
             ''  sort      : '' @ show_double lib (SortTimeMs perf_data) @ '' ms'',
             '''']"
    if a: "CHR 0x0A \<notin> set (Description perf_data)"
      and b: "CHR 0x0A \<notin> set (show_double lib (PushBackTimeMs perf_data))"
      and c: "CHR 0x0A \<notin> set (show_double lib (SortTimeMs perf_data))"
  proof -
    let ?l1 = "Description perf_data @ '':''"
    let ?l2 = "''  push_back : '' @ show_double lib (PushBackTimeMs perf_data) @ '' ms''"
    let ?l3 = "''  sort      : '' @ show_double lib (SortTimeMs perf_data) @ '' ms''"
    have shape: "PrintTime_text lib perf_data = ?l1 @ nl @ (?l2 @ nl @ (?l3 @ nl @ ([] @ nl @ [])))"
      by (simp add: PrintTime_text_def)
    have n1: "CHR 0x0A \<notin> set ?l1" using a by simp
    have n2: "CHR 0x0A \<notin> set ?l2" using b by simp
    have n3: "CHR 0x0A \<notin> set ?l3" using c by simp
    have n4: "CHR 0x0A \<notin> set ([] :: string)" by simp
    have e: "lines_of [] = []" by (simp add: lines_of_def)
    show ?thesis
      unfolding shape lines_of_line [OF n1] lines_of_line [OF n2] lines_of_line [OF n3]
        lines_of_line [OF n4] e ..
  qed
  then show ?thesis
    by (simp add: PrintTime_def PrintTime_text_def)
qed

theorem PrintTime_report_witness:
  "CHR 0x0A \<notin> set (Description sample_X)
   \<and> CHR 0x0A \<notin> set (show_double example_library (PushBackTimeMs sample_X))
   \<and> CHR 0x0A \<notin> set (show_double example_library (SortTimeMs sample_X))
   \<and> lines_of (PrintTime_text example_library sample_X) =
        [''X:'', ''  push_back : 1.5 ms'', ''  sort      : 2.25 ms'', '''']
   \<and> fst (PrintTime example_library (sample_X, initial_world)) = sample_X
   \<and> cout (snd (PrintTime example_library (sample_X, initial_world))) =
        ''X:'' @ nl @ ''  push_back : 1.5 ms'' @ nl @ ''  sort      : 2.25 ms'' @ nl @ nl"
proof -
  have shown: "show_double example_library (PushBackTimeMs sample_X) = ''1.5''"
    "show_double example_library (SortTimeMs sample_X) = ''2.25''"
    "Description sample_X = ''X''"
    by (simp_all add: sample_X_def example_library_def)
  have "cout (initial_world :: real world) = []"
    by (simp add: initial_world_def)
  with PrintTime_report [of example_library sample_X initial_world] show ?thesis
    by (simp add: shown)
qed

section \<open>The entry point\<close>

lemma until_NUL_terminated: "until_NUL (s @ [NUL]) \<noteq> None"
  by (induction s) auto

lemma from_ptr_c_array:
  "k < length ss \<Longrightarrow> from_ptr (map c_array ss) k \<noteq> None"
  by (simp add: from_ptr_def c_array_def until_NUL_terminated)

lemma from_ptr_c_array_clean:
  "k < length ss \<Longrightarrow> NUL \<notin> set (ss ! k) \<Longrightarrow> from_ptr (map c_array ss) k = Some (ss ! k)"
  by (simp add: from_ptr_def until_NUL_c_array)

lemma c_str_loop_eq: "c_str_loop k ss v = v @ [k..<k + length ss]"
proof (induction ss arbitrary: k v)
  case Nil
  show ?case by simp
next
  case (Cons s ss)
  have "[k..<k + length (s # ss)] = k # [Suc k..<Suc k + length ss]"
    by (subst upt_rec) simp
  then show ?case by (simp add: Cons.IH)
qed

lemma shuffled_ptrs_eq: "shuffled_ptrs lib = [0..<length (shuffled lib)]"
  by (simp add: shuffled_ptrs_def c_str_loop_eq)

lemma shuffled_ptrs_valid:
  "\<forall>p \<in> set (shuffled_ptrs lib). from_ptr (map c_array (shuffled lib)) p \<noteq> None"
  by (simp add: shuffled_ptrs_eq from_ptr_c_array)

lemma Measure_arrays:
  "MeasurePushBackAndSort T lib env ptrs description w = Some (x, w') \<Longrightarrow> arrays w' = arrays w"
  by (auto simp: MeasurePushBackAndSort_def Counter_def Let_def split: option.splits)

lemma PrintTime_of_Measure_Some:
  assumes "\<forall>p \<in> set ptrs. from_ptr (arrays w) p \<noteq> None"
  shows "PrintTime_of_Measure T lib env ptrs description w =
           Some (w\<lparr>ticks := ticks w + 4,
                   cout := cout w @ PrintTime_text lib (sample_at lib env (ticks w) description),
                   trace := trace w @
                     [Measured T ptrs description (sample_at lib env (ticks w) description),
                      Printed (sample_at lib env (ticks w) description)]\<rparr>)"
proof -
  note pushed = push_back_loop_Some [OF assms, of "[]"]
  show ?thesis
    unfolding PrintTime_of_Measure_def Measure_Some [OF pushed]
    by (simp add: PrintTime_def)
qed

lemma main_eq: "main lib env = Some (main_result lib env)"
  using shuffled_ptrs_valid [of lib]
  by (simp add: main_def Let_def PrintTime_of_Measure_Some main_result_def initial_world_def)

lemma is_digit_not_NUL: "is_digit c \<Longrightarrow> c \<noteq> NUL"
  by (auto simp: is_digit_def NUL_def)

lemma small_strings_no_NUL: "s \<in> set small_strings \<Longrightarrow> NUL \<notin> set s"
proof -
  assume "s \<in> set small_strings"
  then obtain k where s: "s = 0x23 # dec_digits k"
    by (auto simp: small_strings_eq)
  have "NUL \<notin> set (dec_digits k)"
    using all_digits_dec_digits [of k] by (auto simp: list_all_iff dest: is_digit_not_NUL)
  with s show ?thesis by (simp add: NUL_def)
qed

lemma shuffled_no_NUL:
  assumes "draws_in_range lib" and "i < length (shuffled lib)"
  shows "NUL \<notin> set (shuffled lib ! i)"
proof -
  from assms(1) have "set (shuffled lib) = set small_strings"
    by (intro mset_eq_setD mset_shuffled)
  with assms(2) have "shuffled lib ! i \<in> set small_strings"
    using nth_mem by blast
  then show ?thesis by (rule small_strings_no_NUL)
qed

lemma pointers_received_main_result:
  "pointers_received (trace (main_result lib env)) = replicate 6 (shuffled_ptrs lib)"
  by (simp add: main_result_def eval_nat_numeral)

text \<open>
  Claim C8. The entry point returns, and its trace is twelve events long: six calls of
  the benchmark core, for \<open>ATL::CStringW\<close> and \<open>std::wstring\<close> in turn, three of each,
  each followed at once by the call of the printer on the sample it returned. The output
  is the banner and the six reports in that order, nothing else, and the counter is read
  four times per call.
\<close>

theorem six_runs_each_printed_at_once:
  "\<exists>w. main lib env = Some w
     \<and> trace w =
        [Measured ATL_CStringW (shuffled_ptrs lib) ''ATL1'' (sample_at lib env 0 ''ATL1''),
         Printed (sample_at lib env 0 ''ATL1''),
         Measured STL_wstring (shuffled_ptrs lib) ''STL1'' (sample_at lib env 4 ''STL1''),
         Printed (sample_at lib env 4 ''STL1''),
         Measured ATL_CStringW (shuffled_ptrs lib) ''ATL2'' (sample_at lib env 8 ''ATL2''),
         Printed (sample_at lib env 8 ''ATL2''),
         Measured STL_wstring (shuffled_ptrs lib) ''STL2'' (sample_at lib env 12 ''STL2''),
         Printed (sample_at lib env 12 ''STL2''),
         Measured ATL_CStringW (shuffled_ptrs lib) ''ATL3'' (sample_at lib env 16 ''ATL3''),
         Printed (sample_at lib env 16 ''ATL3''),
         Measured STL_wstring (shuffled_ptrs lib) ''STL3'' (sample_at lib env 20 ''STL3''),
         Printed (sample_at lib env 20 ''STL3'')]
     \<and> cout w =
        banner lib
        @ PrintTime_text lib (sample_at lib env 0 ''ATL1'')
        @ PrintTime_text lib (sample_at lib env 4 ''STL1'')
        @ PrintTime_text lib (sample_at lib env 8 ''ATL2'')
        @ PrintTime_text lib (sample_at lib env 12 ''STL2'')
        @ PrintTime_text lib (sample_at lib env 16 ''ATL3'')
        @ PrintTime_text lib (sample_at lib env 20 ''STL3'')
     \<and> ticks w = 24"
  by (simp add: main_eq main_result_def)

text \<open>
  Claim C9. The view has as many pointers as the shuffled corpus has strings; its \<open>i\<close>-th
  pointer addresses the array of the \<open>i\<close>-th shuffled string, and reading through it gives
  that string back (the strings hold no terminator when the draws are in range). The
  entry point returns with the memory of the corpus as it was built, each of the six
  calls having received that same view; and no call of the benchmark core changes the
  memory.
\<close>

theorem view_matches_corpus_and_is_shared:
  "length (shuffled_ptrs lib) = length (shuffled lib)
   \<and> (\<forall>i < length (shuffled lib).
         map c_array (shuffled lib) ! (shuffled_ptrs lib ! i) = c_array (shuffled lib ! i))
   \<and> (draws_in_range lib \<longrightarrow>
       (\<forall>i < length (shuffled lib).
          from_ptr (map c_array (shuffled lib)) (shuffled_ptrs lib ! i) = Some (shuffled lib ! i)))
   \<and> (\<exists>w. main lib env = Some w
          \<and> arrays w = map c_array (shuffled lib)
          \<and> pointers_received (trace w) = replicate 6 (shuffled_ptrs lib))
   \<and> (\<forall>T ptrs description w x w'.
         MeasurePushBackAndSort T lib env ptrs description w = Some (x, w')
         \<longrightarrow> arrays w' = arrays w)"
proof (intro conjI)
  show "length (shuffled_ptrs lib) = length (shuffled lib)"
    by (simp add: shuffled_ptrs_eq)
  show "\<forall>i < length (shuffled lib).
         map c_array (shuffled lib) ! (shuffled_ptrs lib ! i) = c_array (shuffled lib ! i)"
    by (simp add: shuffled_ptrs_eq)
  show "draws_in_range lib \<longrightarrow>
       (\<forall>i < length (shuffled lib).
          from_ptr (map c_array (shuffled lib)) (shuffled_ptrs lib ! i) = Some (shuffled lib ! i))"
    by (simp add: shuffled_ptrs_eq from_ptr_c_array_clean shuffled_no_NUL)
  show "\<exists>w. main lib env = Some w
          \<and> arrays w = map c_array (shuffled lib)
          \<and> pointers_received (trace w) = replicate 6 (shuffled_ptrs lib)"
    by (simp add: main_eq pointers_received_main_result) (simp add: main_result_def)
  show "\<forall>T ptrs description w x w'.
         MeasurePushBackAndSort T lib env ptrs description w = Some (x, w')
         \<longrightarrow> arrays w' = arrays w"
    by (blast dest: Measure_arrays)
qed

theorem view_matches_corpus_and_is_shared_witness:
  "0 < length (shuffled example_library)
   \<and> map c_array (shuffled example_library) ! (shuffled_ptrs example_library ! 0)
       = c_array (shuffled example_library ! 0)
   \<and> draws_in_range example_library
   \<and> from_ptr (map c_array (shuffled example_library)) (shuffled_ptrs example_library ! 0)
       = Some (shuffled example_library ! 0)
   \<and> (\<exists>x w'. MeasurePushBackAndSort ATL_CStringW example_library example_env [0, 1, 2]
                  ''ATL1'' (initial_world\<lparr>arrays := hash_2_0_1\<rparr>) = Some (x, w')
               \<and> arrays w' = hash_2_0_1)"
proof -
  let ?w = "initial_world\<lparr>arrays := hash_2_0_1\<rparr> :: real world"
  have pos: "0 < length (shuffled example_library)"
    by (simp add: length_shuffled)
  have draws: "draws_in_range example_library"
    by (simp add: draws_in_range_def example_library_def)
  have "push_back_loop (arrays ?w) [0, 1, 2] []
      = Some [[0x23, 0x32], [0x23, 0x30], [0x23, 0x31]]"
    by (simp add: hash_2_0_1_def from_ptr_def c_array_def NUL_def)
  from Measure_Some [OF this, of ATL_CStringW example_library example_env "''ATL1''"]
  obtain x w' where run: "MeasurePushBackAndSort ATL_CStringW example_library example_env
      [0, 1, 2] ''ATL1'' ?w = Some (x, w')"
    by blast
  note claim = view_matches_corpus_and_is_shared [of example_library example_env]
  from claim run have "arrays w' = arrays ?w" by blast
  then have "arrays w' = hash_2_0_1" by simp
  with claim pos draws run show ?thesis by blast
qed

section \<open>The timer\<close>











end
